theory Spec2Isabelle
  imports Complex_Main
begin

section \<open>Values shared by the indicator engine and the backtester\<close>

text \<open>
  Python floats are modelled as exact reals; the binary rounding error of IEEE arithmetic is
  not modelled. The non-finite floats that pandas produces (NaN for a missing value or 0/0,
  the infinities for x/0) are explicit constructors, so that no division of the model is
  HOL's \<open>x / 0 = 0\<close>. Signed zeros are not distinguished.
\<close>

datatype pyfloat = Fin real | NaN | PosInf | NegInf

text \<open>
  One entry of an input dict: the key is missing (\<open>Absent\<close>), or it holds a value that
  \<open>pd.to_numeric(errors="coerce")\<close> and \<open>dropna\<close> treat as missing (\<open>Null\<close>:
  \<open>None\<close>, NaN, an unparseable string), or it holds a usable value.
\<close>

datatype 'a cell = Absent | Null | Val 'a

record bar =
  date :: "string cell"
  close :: "real cell"

datatype vmsg = NotEnoughData int int | BadWindow | BadComass

datatype exn = ValueError vmsg | KeyError string | IndexError | ZeroDivisionError

subsection \<open>\<open>round(x, 2)\<close>\<close>

text \<open>
  Python rounds a float to two decimals with ties going to the even neighbour; on exact
  reals that is round-half-even of \<open>100 x\<close>. A non-finite float is returned unchanged.
\<close>

definition round_half_even :: "real \<Rightarrow> int" where
  "round_half_even x =
     (let f = \<lfloor>x\<rfloor>; d = x - of_int f
      in if d < 1 / 2 then f
         else if 1 / 2 < d then f + 1
         else if even f then f else f + 1)"

definition round2 :: "real \<Rightarrow> real" where
  "round2 x = of_int (round_half_even (x * 100)) / 100"

fun round2_pf :: "pyfloat \<Rightarrow> pyfloat" where
  "round2_pf (Fin x) = Fin (round2 x)"
| "round2_pf NaN = NaN"
| "round2_pf PosInf = PosInf"
| "round2_pf NegInf = NegInf"

subsection \<open>IEEE arithmetic on floats that may be non-finite\<close>

fun pf_neg :: "pyfloat \<Rightarrow> pyfloat" where
  "pf_neg (Fin x) = Fin (- x)"
| "pf_neg NaN = NaN"
| "pf_neg PosInf = NegInf"
| "pf_neg NegInf = PosInf"

fun pf_add :: "pyfloat \<Rightarrow> pyfloat \<Rightarrow> pyfloat" where
  "pf_add (Fin x) (Fin y) = Fin (x + y)"
| "pf_add NaN _ = NaN"
| "pf_add _ NaN = NaN"
| "pf_add PosInf NegInf = NaN"
| "pf_add NegInf PosInf = NaN"
| "pf_add PosInf _ = PosInf"
| "pf_add NegInf _ = NegInf"
| "pf_add (Fin x) PosInf = PosInf"
| "pf_add (Fin x) NegInf = NegInf"

definition pf_sub :: "pyfloat \<Rightarrow> pyfloat \<Rightarrow> pyfloat" where
  "pf_sub a b = pf_add a (pf_neg b)"

fun pf_sign_inf :: "bool \<Rightarrow> pyfloat" where
  "pf_sign_inf True = PosInf"
| "pf_sign_inf False = NegInf"

fun pf_mul :: "pyfloat \<Rightarrow> pyfloat \<Rightarrow> pyfloat" where
  "pf_mul (Fin x) (Fin y) = Fin (x * y)"
| "pf_mul NaN _ = NaN"
| "pf_mul _ NaN = NaN"
| "pf_mul PosInf (Fin y) = (if y = 0 then NaN else pf_sign_inf (0 < y))"
| "pf_mul NegInf (Fin y) = (if y = 0 then NaN else pf_sign_inf (y < 0))"
| "pf_mul (Fin x) PosInf = (if x = 0 then NaN else pf_sign_inf (0 < x))"
| "pf_mul (Fin x) NegInf = (if x = 0 then NaN else pf_sign_inf (x < 0))"
| "pf_mul PosInf PosInf = PosInf"
| "pf_mul NegInf NegInf = PosInf"
| "pf_mul PosInf NegInf = NegInf"
| "pf_mul NegInf PosInf = NegInf"

fun pf_div :: "pyfloat \<Rightarrow> pyfloat \<Rightarrow> pyfloat" where
  "pf_div (Fin x) (Fin y) =
     (if y \<noteq> 0 then Fin (x / y) else if x = 0 then NaN else pf_sign_inf (0 < x))"
| "pf_div NaN _ = NaN"
| "pf_div _ NaN = NaN"
| "pf_div (Fin x) PosInf = Fin 0"
| "pf_div (Fin x) NegInf = Fin 0"
| "pf_div PosInf (Fin y) = pf_sign_inf (0 \<le> y)"
| "pf_div NegInf (Fin y) = pf_sign_inf (y < 0)"
| "pf_div PosInf PosInf = NaN"
| "pf_div PosInf NegInf = NaN"
| "pf_div NegInf PosInf = NaN"
| "pf_div NegInf NegInf = NaN"

text \<open>\<open><\<close> on floats: every comparison with NaN is false.\<close>

fun pf_less :: "pyfloat \<Rightarrow> pyfloat \<Rightarrow> bool" where
  "pf_less (Fin x) (Fin y) = (x < y)"
| "pf_less NaN _ = False"
| "pf_less _ NaN = False"
| "pf_less NegInf NegInf = False"
| "pf_less NegInf _ = True"
| "pf_less _ NegInf = False"
| "pf_less PosInf _ = False"
| "pf_less (Fin x) PosInf = True"

subsection \<open>\<open>Series.rolling(window).mean()\<close> on a series without NaN\<close>

text \<open>
  \<open>seen\<close> holds the values already passed, latest first. Entry \<open>i\<close> of the result is NaN
  until \<open>window\<close> values are available, then the mean of the latest \<open>window\<close> values. A window
  of 0 has no observations and yields NaN everywhere.
\<close>

fun rolling_from :: "nat \<Rightarrow> real list \<Rightarrow> real list \<Rightarrow> pyfloat list" where
  "rolling_from w seen [] = []"
| "rolling_from w seen (x # xs) =
     (if w = 0 \<or> Suc (length seen) < w then NaN
      else Fin (sum_list (take w (x # seen)) / real w)) # rolling_from w (x # seen) xs"

definition rolling_mean :: "nat \<Rightarrow> real list \<Rightarrow> pyfloat list" where
  "rolling_mean w xs = rolling_from w [] xs"

section \<open>finrl\_mock.py: the MA-crossover backtester\<close>

subsection \<open>Lines 57--63: the data frame of the simulation window\<close>

record row =
  r_date :: string
  r_close :: real
  r_short :: real
  r_long :: real

text \<open>\<open>pd.DataFrame(ohlcv)\<close> has a column exactly when some dict has the key.\<close>

definition has_date :: "bar list \<Rightarrow> bool" where
  "has_date ohlcv = list_ex (\<lambda>b. date b \<noteq> Absent) ohlcv"

definition has_close :: "bar list \<Rightarrow> bool" where
  "has_close ohlcv = list_ex (\<lambda>b. close b \<noteq> Absent) ohlcv"

text \<open>Lines 58--59: rows whose close is not a number are dropped; the date is kept as it is.\<close>

fun numeric_rows :: "bar list \<Rightarrow> (string cell \<times> real) list" where
  "numeric_rows [] = []"
| "numeric_rows (b # bs) =
     (case close b of Val c \<Rightarrow> (date b, c) # numeric_rows bs | _ \<Rightarrow> numeric_rows bs)"

text \<open>Line 63: \<open>df.dropna()\<close> drops every row with a missing date or an undefined average.\<close>

fun complete_rows :: "((string cell \<times> real) \<times> pyfloat \<times> pyfloat) list \<Rightarrow> row list" where
  "complete_rows [] = []"
| "complete_rows (((Val d, c), Fin a, Fin b) # rest) =
     \<lparr>r_date = d, r_close = c, r_short = a, r_long = b\<rparr> # complete_rows rest"
| "complete_rows (_ # rest) = complete_rows rest"

definition build_df :: "bar list \<Rightarrow> int \<Rightarrow> int \<Rightarrow> exn + row list" where
  "build_df ohlcv ms ml =
     (if \<not> (has_date ohlcv \<and> has_close ohlcv) then Inl (KeyError ''date, close'')
      else if ms < 0 \<or> ml < 0 then Inl (ValueError BadWindow)
      else let rows = numeric_rows ohlcv;
               closes = map snd rows
           in Inr (complete_rows
                (zip rows (zip (rolling_mean (nat ms) closes) (rolling_mean (nat ml) closes)))))"

subsection \<open>Lines 66--103: the simulation loop\<close>

record sim =
  equity :: real
  position :: real
  entry_price :: real
  trade_results :: "real list"
  equity_curve :: "(string \<times> real) list"
  prev_short :: real
  prev_long :: real

text \<open>
  Lines 81--97. The loop variables are Python floats (the rows of a mixed-type frame are
  object Series), so a division by zero raises \<open>ZeroDivisionError\<close>.
\<close>

definition transition :: "real \<Rightarrow> real \<Rightarrow> sim \<Rightarrow> row \<Rightarrow> exn + sim" where
  "transition tp sl s r =
     (let cur_short = r_short r; cur_long = r_long r; price = r_close r
      in if prev_short s \<le> prev_long s \<and> cur_long < cur_short \<and> position s = 0 then
           (if price = 0 then Inl ZeroDivisionError
            else Inr (s\<lparr>position := equity s / price, entry_price := price\<rparr>))
         else if 0 < position s then
           (if entry_price s = 0 then Inl ZeroDivisionError
            else let change = (price - entry_price s) / entry_price s;
                     should_sell =
                       ((prev_long s \<le> prev_short s \<and> cur_short < cur_long)
                        \<or> tp \<le> change
                        \<or> change \<le> - sl)
                 in if should_sell then
                      Inr (s\<lparr>equity := position s * price,
                             trade_results := trade_results s @ [price - entry_price s],
                             position := 0,
                             entry_price := 0\<rparr>)
                    else Inr s)
         else Inr s)"

text \<open>Lines 99--103, after the transition of the bar.\<close>

definition record_bar :: "sim \<Rightarrow> row \<Rightarrow> sim" where
  "record_bar s r =
     (let price = r_close r;
          current_equity = (if 0 < position s then position s * price + equity s else equity s)
      in s\<lparr>equity_curve := equity_curve s @ [(r_date r, round2 current_equity)],
           prev_short := r_short r,
           prev_long := r_long r\<rparr>)"

definition step :: "real \<Rightarrow> real \<Rightarrow> sim \<Rightarrow> row \<Rightarrow> exn + sim" where
  "step tp sl s r =
     (case transition tp sl s r of Inl e \<Rightarrow> Inl e | Inr s1 \<Rightarrow> Inr (record_bar s1 r))"

fun walk :: "real \<Rightarrow> real \<Rightarrow> sim \<Rightarrow> row list \<Rightarrow> exn + sim" where
  "walk tp sl s [] = Inr s"
| "walk tp sl s (r # rs) =
     (case step tp sl s r of Inl e \<Rightarrow> Inl e | Inr s' \<Rightarrow> walk tp sl s' rs)"

text \<open>Lines 66--73; \<open>first\<close> is row 0 of the frame, read by \<open>iloc[0]\<close>.\<close>

definition init_sim :: "real \<Rightarrow> row \<Rightarrow> sim" where
  "init_sim cap first =
     \<lparr>equity = cap, position = 0, entry_price = 0, trade_results = [], equity_curve = [],
      prev_short = r_short first, prev_long = r_long first\<rparr>"

text \<open>Lines 105--109: an open position is closed at the last close.\<close>

definition liquidate :: "sim \<Rightarrow> row list \<Rightarrow> sim" where
  "liquidate s df =
     (if 0 < position s then
        (let last_price = r_close (last df)
         in s\<lparr>equity := position s * last_price,
              trade_results := trade_results s @ [last_price - entry_price s]\<rparr>)
      else s)"

text \<open>Lines 72--109 on a frame; \<open>iloc[0]\<close> raises on the empty frame.\<close>

definition simulate :: "real \<Rightarrow> real \<Rightarrow> real \<Rightarrow> row list \<Rightarrow> exn + sim" where
  "simulate cap tp sl df =
     (case df of
        [] \<Rightarrow> Inl IndexError
      | first # _ \<Rightarrow>
          (case walk tp sl (init_sim cap first) df of
             Inl e \<Rightarrow> Inl e
           | Inr s \<Rightarrow> Inr (liquidate s df)))"

subsection \<open>Lines 111--138: the metrics\<close>

text \<open>Line 112.\<close>

definition final_equity :: "real \<Rightarrow> (string \<times> real) list \<Rightarrow> real" where
  "final_equity cap curve = (if curve \<noteq> [] then snd (last curve) else cap)"

text \<open>\<open>Series.cummax()\<close>.\<close>

fun cummax_from :: "real \<Rightarrow> real list \<Rightarrow> real list" where
  "cummax_from m [] = []"
| "cummax_from m (x # xs) = max m x # cummax_from (max m x) xs"

definition cummax :: "real list \<Rightarrow> real list" where
  "cummax xs = (case xs of [] \<Rightarrow> [] | x # rest \<Rightarrow> x # cummax_from x rest)"

text \<open>Line 117, elementwise in numpy arithmetic: a peak of 0 gives NaN or an infinity.\<close>

definition drawdown :: "real list \<Rightarrow> pyfloat list" where
  "drawdown equities =
     map (\<lambda>(e, m). pf_mul (pf_div (pf_sub (Fin e) (Fin m)) (Fin m)) (Fin 100))
       (zip equities (cummax equities))"

text \<open>\<open>Series.min()\<close> skips NaN and is NaN when nothing is left.\<close>

fun series_min :: "pyfloat list \<Rightarrow> pyfloat" where
  "series_min [] = NaN"
| "series_min (x # xs) =
     (let m = series_min xs
      in if x = NaN then m else if m = NaN then x else if pf_less m x then m else x)"

definition max_drawdown :: "real list \<Rightarrow> pyfloat" where
  "max_drawdown equities = series_min (drawdown equities)"

definition win_rate :: "real list \<Rightarrow> real" where
  "win_rate trades =
     (if length trades \<noteq> 0
      then real (length (filter (\<lambda>r. 0 < r) trades)) / real (length trades) * 100
      else 0)"

text \<open>
  The returned metrics. The Sharpe ratio (a sample standard deviation scaled by the float
  \<open>252**0.5\<close>) is left out: no property below reads it.
\<close>

record metrics =
  total_return_pct :: real
  max_drawdown_pct :: pyfloat
  num_trades :: nat
  win_rate_pct :: real

record backtest_result =
  strategy :: "int \<times> int"
  result_metrics :: metrics
  result_equity_curve :: "(string \<times> real) list"

definition compute_metrics :: "real \<Rightarrow> int \<Rightarrow> int \<Rightarrow> sim \<Rightarrow> exn + backtest_result" where
  "compute_metrics cap ms ml s =
     (let fe = final_equity cap (equity_curve s)
      in if cap = 0 then Inl ZeroDivisionError
         else let total_return = (fe - cap) / cap * 100;
                  equities = map snd (equity_curve s)
              in Inr \<lparr>strategy = (ms, ml),
                      result_metrics =
                        \<lparr>total_return_pct = round2 total_return,
                         max_drawdown_pct = round2_pf (max_drawdown equities),
                         num_trades = length (trade_results s),
                         win_rate_pct = round2 (win_rate (trade_results s))\<rparr>,
                      result_equity_curve = equity_curve s\<rparr>)"

subsection \<open>\<open>run_backtest\<close>\<close>

text \<open>Lines 52--138 on the fetched history.\<close>

definition backtest_history ::
  "bar list \<Rightarrow> real \<Rightarrow> int \<Rightarrow> int \<Rightarrow> real \<Rightarrow> real \<Rightarrow> exn + backtest_result" where
  "backtest_history ohlcv cap ms ml tp sl =
     (if int (length ohlcv) < ml + 5
      then Inl (ValueError (NotEnoughData (ml + 5) (int (length ohlcv))))
      else case build_df ohlcv ms ml of
             Inl e \<Rightarrow> Inl e
           | Inr df \<Rightarrow>
               (case simulate cap tp sl df of
                  Inl e \<Rightarrow> Inl e
                | Inr s \<Rightarrow> compute_metrics cap ms ml s))"

text \<open>
  The market-data gateway is an external collaborator: \<open>fetch\<close> stands for
  \<open>fetch_market_data(symbol, days)["ohlcv"]\<close>.
\<close>

definition run_backtest ::
  "(string \<Rightarrow> int \<Rightarrow> bar list) \<Rightarrow> string \<Rightarrow> real \<Rightarrow> int \<Rightarrow> int \<Rightarrow> real \<Rightarrow> real \<Rightarrow> int
     \<Rightarrow> exn + backtest_result" where
  "run_backtest fetch symb cap ms ml tp sl days =
     backtest_history (fetch symb days) cap ms ml tp sl"

section \<open>api/v1/backtest.py: the endpoint\<close>

text \<open>
  The handler is called \<open>run_backtest\<close> in the source as well; here it is
  \<open>api_run_backtest\<close>, and \<open>run_backtest\<close> is the service function it delegates to.
  The handler's body is modelled from line 38 on, after the request body has been
  validated and the user resolved.
\<close>

record backtest_request =
  symbol :: string
  initial_capital :: real
  ma_short :: int
  ma_long :: int
  take_profit_pct :: real
  stop_loss_pct :: real
  lookback_days :: int

datatype detail = Text string | ExcText vmsg

datatype http_exn = HTTPException nat detail

definition api_run_backtest ::
  "(string \<Rightarrow> int \<Rightarrow> bar list) \<Rightarrow> backtest_request \<Rightarrow> http_exn + string \<times> backtest_result" where
  "api_run_backtest fetch body =
     (if ma_long body \<le> ma_short body
      then Inl (HTTPException 422 (Text ''ma_short must be strictly less than ma_long.''))
      else case run_backtest fetch (symbol body) (initial_capital body) (ma_short body)
                  (ma_long body) (take_profit_pct body) (stop_loss_pct body) (lookback_days body) of
             Inl (ValueError m) \<Rightarrow> Inl (HTTPException 422 (ExcText m))
           | Inl _ \<Rightarrow> Inl (HTTPException 500 (Text ''Backtest simulation failed.''))
           | Inr res \<Rightarrow> Inr (symbol body, res))"

section \<open>qlib\_wrapper.py: the indicator calculator\<close>

text \<open>
  \<open>_to_dataframe\<close>, reduced to the close column that every caller reads. Reading the
  column of a frame that has none raises \<open>KeyError\<close>.
\<close>

definition to_dataframe :: "bar list \<Rightarrow> exn + real list" where
  "to_dataframe ohlcv =
     (if \<not> has_close ohlcv then Inl (KeyError ''close'')
      else Inr (map snd (numeric_rows ohlcv)))"

subsection \<open>\<open>_calc_rsi\<close>\<close>

text \<open>\<open>series.diff().dropna()\<close>.\<close>

fun diffs :: "real list \<Rightarrow> real list" where
  "diffs (x # y # ys) = (y - x) # diffs (y # ys)"
| "diffs _ = []"

text \<open>
  \<open>ewm(com, min_periods).mean()\<close> with the default \<open>adjust=True\<close>: the weighted average
  with weights \<open>(1 - \<alpha>)^i\<close>, kept as a running numerator and denominator; \<open>n\<close> counts the
  observations passed.
\<close>

fun ewm_from :: "real \<Rightarrow> nat \<Rightarrow> real \<Rightarrow> real \<Rightarrow> nat \<Rightarrow> real list \<Rightarrow> pyfloat list" where
  "ewm_from \<alpha> minp num den n [] = []"
| "ewm_from \<alpha> minp num den n (x # xs) =
     (if Suc n < minp then NaN
      else pf_div (Fin (x + (1 - \<alpha>) * num)) (Fin (1 + (1 - \<alpha>) * den)))
     # ewm_from \<alpha> minp (x + (1 - \<alpha>) * num) (1 + (1 - \<alpha>) * den) (Suc n) xs"

definition ewm_mean :: "real \<Rightarrow> nat \<Rightarrow> real list \<Rightarrow> pyfloat list" where
  "ewm_mean \<alpha> minp xs = ewm_from \<alpha> minp 0 0 0 xs"

definition gains :: "real list \<Rightarrow> real list" where
  "gains series = map (\<lambda>d. max d 0) (diffs series)"

definition losses :: "real list \<Rightarrow> real list" where
  "losses series = map (\<lambda>d. max (- d) 0) (diffs series)"

text \<open>Lines 78--79, for a period of at least 1 (\<open>com = period - 1\<close>, \<open>\<alpha> = 1 / (1 + com)\<close>).\<close>

definition avg_gain :: "real list \<Rightarrow> nat \<Rightarrow> pyfloat list" where
  "avg_gain series period = ewm_mean (1 / real period) period (gains series)"

definition avg_loss :: "real list \<Rightarrow> nat \<Rightarrow> pyfloat list" where
  "avg_loss series period = ewm_mean (1 / real period) period (losses series)"

text \<open>\<open>.replace(0, float("nan"))\<close>.\<close>

fun replace_zero :: "pyfloat \<Rightarrow> pyfloat" where
  "replace_zero (Fin x) = (if x = 0 then NaN else Fin x)"
| "replace_zero v = v"

definition calc_rsi :: "real list \<Rightarrow> int \<Rightarrow> exn + pyfloat" where
  "calc_rsi series period =
     (if int (length series) < period + 1 then Inr (Fin 50)
      else if period - 1 < 0 then Inl (ValueError BadComass)
      else let rs = map (\<lambda>(g, l). pf_div g (replace_zero l))
                      (zip (avg_gain series (nat period)) (avg_loss series (nat period)));
               rsi = map (\<lambda>r. pf_sub (Fin 100) (pf_div (Fin 100) (pf_add (Fin 1) r))) rs
           in Inr (if rsi \<noteq> [] then last rsi else Fin 50))"

subsection \<open>\<open>_calc_macd_signal\<close>\<close>

datatype macd_signal = bullish | bearish | neutral

text \<open>\<open>ewm(span, adjust=False).mean()\<close>: seeded with the first value.\<close>

fun ewm_rec :: "real \<Rightarrow> real \<Rightarrow> real list \<Rightarrow> real list" where
  "ewm_rec \<alpha> y [] = []"
| "ewm_rec \<alpha> y (x # xs) = ((1 - \<alpha>) * y + \<alpha> * x) # ewm_rec \<alpha> ((1 - \<alpha>) * y + \<alpha> * x) xs"

definition ewm_span :: "real \<Rightarrow> real list \<Rightarrow> real list" where
  "ewm_span sp xs =
     (case xs of [] \<Rightarrow> [] | x # rest \<Rightarrow> x # ewm_rec (2 / (sp + 1)) x rest)"

definition calc_macd_signal :: "real list \<Rightarrow> macd_signal" where
  "calc_macd_signal series =
     (if length series < 26 then neutral
      else let ema12 = ewm_span 12 series;
               ema26 = ewm_span 26 series;
               macd_line = map (\<lambda>(a, b). a - b) (zip ema12 ema26);
               signal_line = ewm_span 9 macd_line
           in if last signal_line < last macd_line then bullish
              else if last macd_line < last signal_line then bearish
              else neutral)"

subsection \<open>\<open>_calc_ma\<close>\<close>

text \<open>
  pandas refuses a negative window; \<open>iloc[-1]\<close> raises on an empty series, which the length
  test lets through only for a window of at most 0.
\<close>

definition calc_ma :: "real list \<Rightarrow> int \<Rightarrow> exn + pyfloat option" where
  "calc_ma series window =
     (if int (length series) < window then Inr None
      else if window < 0 then Inl (ValueError BadWindow)
      else case rolling_mean (nat window) series of
             [] \<Rightarrow> Inl IndexError
           | m # ms \<Rightarrow> Inr (Some (last (m # ms))))"

subsection \<open>\<open>compute_indicators\<close>\<close>

record indicators =
  rsi :: pyfloat
  macd :: macd_signal
  ma20 :: "pyfloat option"
  ma60 :: "pyfloat option"

text \<open>Lines 40--51: the body of the \<open>try\<close>.\<close>

definition indicators_body :: "bar list \<Rightarrow> exn + indicators" where
  "indicators_body ohlcv =
     (case to_dataframe ohlcv of
        Inl e \<Rightarrow> Inl e
      | Inr closes \<Rightarrow>
          (case calc_rsi closes 14 of
             Inl e \<Rightarrow> Inl e
           | Inr r \<Rightarrow>
               (case calc_ma closes 20 of
                  Inl e \<Rightarrow> Inl e
                | Inr m20 \<Rightarrow>
                    (case calc_ma closes 60 of
                       Inl e \<Rightarrow> Inl e
                     | Inr m60 \<Rightarrow>
                         Inr \<lparr>rsi = round2_pf r,
                              macd = calc_macd_signal closes,
                              ma20 = map_option round2_pf m20,
                              ma60 = map_option round2_pf m60\<rparr>))))"

text \<open>Line 54.\<close>

definition default_indicators :: indicators where
  "default_indicators = \<lparr>rsi = Fin 50, macd = neutral, ma20 = None, ma60 = None\<rparr>"

definition compute_indicators :: "bar list \<Rightarrow> indicators" where
  "compute_indicators ohlcv =
     (case indicators_body ohlcv of Inl e \<Rightarrow> default_indicators | Inr r \<Rightarrow> r)"

section \<open>Observers of a run\<close>

text \<open>
  The source keeps only the price difference of each trade. The number of shares a trade
  sold is read off the run: the position held when a step of the loop appends a trade, and
  the position still held after the loop for the forced liquidation.
\<close>

fun trade_shares :: "real \<Rightarrow> real \<Rightarrow> sim \<Rightarrow> row list \<Rightarrow> real list" where
  "trade_shares tp sl s [] = []"
| "trade_shares tp sl s (r # rs) =
     (case step tp sl s r of
        Inl e \<Rightarrow> []
      | Inr s' \<Rightarrow>
          (if length (trade_results s) < length (trade_results s') then [position s] else [])
          @ trade_shares tp sl s' rs)"

definition realized_shares :: "real \<Rightarrow> real \<Rightarrow> sim \<Rightarrow> row list \<Rightarrow> sim \<Rightarrow> real list" where
  "realized_shares tp sl s0 df s =
     trade_shares tp sl s0 df @ (if 0 < position s then [position s] else [])"

definition weighted_pnl :: "real list \<Rightarrow> real list \<Rightarrow> real" where
  "weighted_pnl shares pnls = sum_list (map (\<lambda>(q, p). q * p) (zip shares pnls))"



section \<open>Sample inputs\<close>

definition trading_days :: "string list" where
  "trading_days =
     [''2024-01-02'', ''2024-01-03'', ''2024-01-04'', ''2024-01-05'', ''2024-01-08'',
      ''2024-01-09'', ''2024-01-10'', ''2024-01-11'', ''2024-01-12'', ''2024-01-15'',
      ''2024-01-16'', ''2024-01-17'', ''2024-01-18'', ''2024-01-19'', ''2024-01-22'']"

text \<open>Up to fifteen bars on consecutive trading days with the given closes.\<close>

definition bars_of :: "real list \<Rightarrow> bar list" where
  "bars_of cs = map (\<lambda>(d, c). \<lparr>date = Val d, close = Val c\<rparr>) (zip trading_days cs)"

text \<open>Ten bars at 50, then five at 100: the short average crosses the long one at bar 11.\<close>

definition jump_history :: "bar list" where
  "jump_history = bars_of [50, 50, 50, 50, 50, 50, 50, 50, 50, 50, 100, 100, 100, 100, 100]"

definition jump_df :: "row list" where
  "jump_df =
     [\<lparr>r_date = ''2024-01-15'', r_close = 50, r_short = 50, r_long = 50\<rparr>,
      \<lparr>r_date = ''2024-01-16'', r_close = 100, r_short = 60, r_long = 55\<rparr>,
      \<lparr>r_date = ''2024-01-17'', r_close = 100, r_short = 70, r_long = 60\<rparr>,
      \<lparr>r_date = ''2024-01-18'', r_close = 100, r_short = 80, r_long = 65\<rparr>,
      \<lparr>r_date = ''2024-01-19'', r_close = 100, r_short = 90, r_long = 70\<rparr>,
      \<lparr>r_date = ''2024-01-22'', r_close = 100, r_short = 100, r_long = 75\<rparr>]"

definition jump_state :: sim where
  "jump_state =
     \<lparr>equity = 100000, position = 1000, entry_price = 100, trade_results = [],
      equity_curve = [(''2024-01-15'', 100000), (''2024-01-16'', 200000),
                      (''2024-01-17'', 200000), (''2024-01-18'', 200000),
                      (''2024-01-19'', 200000), (''2024-01-22'', 200000)],
      prev_short = 100, prev_long = 75\<rparr>"





text \<open>Fifteen bars, six of them with a null close: nine usable closes for a window of ten.\<close>

definition gappy_history :: "bar list" where
  "gappy_history =
     map (\<lambda>(d, c). \<lparr>date = Val d, close = c\<rparr>)
       (zip trading_days
         [Null, Null, Null, Null, Null, Null,
          Val 100, Val 100, Val 100, Val 100, Val 100, Val 100, Val 100, Val 100, Val 100])"

text \<open>Fifteen strictly rising closes: a window without a single loss.\<close>

definition rising_closes :: "real list" where
  "rising_closes = [1, 2, 3, 4, 5, 6, 7, 8, 9, 10, 11, 12, 13, 14, 15]"

section \<open>Float arithmetic\<close>

lemma pf_div_NaN_right [simp]: "pf_div x NaN = NaN"
  by (cases x) simp_all

lemma pf_add_NaN_right [simp]: "pf_add x NaN = NaN"
  by (cases x) simp_all




section \<open>Properties of the moving average\<close>

lemma rolling_from_length: "length (rolling_from w seen xs) = length xs"
  by (induction xs arbitrary: seen) auto

lemma rolling_from_last:
  "xs \<noteq> [] \<Longrightarrow>
   last (rolling_from w seen xs) =
     (if w = 0 \<or> length seen + length xs < w then NaN
      else Fin (sum_list (take w (rev xs @ seen)) / real w))"
proof (induction xs arbitrary: seen)
  case Nil
  then show ?case by simp
next
  case (Cons x xs)
  show ?case
  proof (cases "xs = []")
    case True
    then show ?thesis by auto
  next
    case False
    then have ne: "rolling_from w (x # seen) xs \<noteq> []" by (cases xs) auto
    from Cons.IH [OF False, of "x # seen"] ne show ?thesis by simp
  qed
qed

text \<open>
  With fewer closes than the window, \<open>_calc_ma\<close> returns \<open>None\<close>; this does not depend on
  how the mean is computed.
\<close>

lemma calc_ma_short_series: "int (length series) < w \<Longrightarrow> calc_ma series w = Inr None"
  by (simp add: calc_ma_def)

text \<open>
  In exact arithmetic, the value on a series of exactly \<open>w \<ge> 1\<close> closes is their arithmetic
  mean. pandas accumulates the window sum in float64, so the float it returns can differ
  from the mean of the closes in the last bits: the lemma describes the exact-real
  idealisation of \<open>rolling_mean\<close>, not the rounding of the program.
\<close>

lemma calc_ma_full_window_exact_arithmetic:
  assumes "0 < w" and "int (length series) = w"
  shows "calc_ma series w = Inr (Some (Fin (sum_list series / real (length series))))"
proof -
  from assms have ne: "series \<noteq> []" by auto
  from assms(2) have nw: "nat w = length series" by simp
  obtain m ms where r: "rolling_mean (nat w) series = m # ms"
    using ne rolling_from_length [of "nat w" "[]" series]
    by (cases "rolling_mean (nat w) series") (auto simp: rolling_mean_def)
  have "last (rolling_mean (nat w) series) = Fin (sum_list series / real (length series))"
    using rolling_from_last [OF ne, of "nat w" "[]"] ne nw
    by (simp add: rolling_mean_def)
  with r assms show ?thesis by (simp add: calc_ma_def)
qed

section \<open>Properties of the indicator calculator\<close>

lemma calc_rsi_14_total: "\<exists>v. calc_rsi closes 14 = Inr v"
  by (simp add: calc_rsi_def Let_def)

lemma calc_ma_total:
  assumes "0 < w"
  shows "\<exists>v. calc_ma closes w = Inr v"
proof (cases "int (length closes) < w")
  case True
  then show ?thesis by (simp add: calc_ma_def)
next
  case False
  with assms have "closes \<noteq> []" by auto
  then have "rolling_mean (nat w) closes \<noteq> []"
    using rolling_from_length [of "nat w" "[]" closes] by (auto simp: rolling_mean_def)
  with False assms show ?thesis
    by (auto simp: calc_ma_def split: list.splits)
qed

text \<open>The body of the \<open>try\<close> raises exactly when the frame has no close column.\<close>

lemma indicators_body_raises_iff:
  "(\<exists>e. indicators_body ohlcv = Inl e) \<longleftrightarrow> \<not> has_close ohlcv"
proof (cases "has_close ohlcv")
  case False
  then show ?thesis by (simp add: indicators_body_def to_dataframe_def)
next
  case True
  let ?c = "map snd (numeric_rows ohlcv)"
  obtain r where r: "calc_rsi ?c 14 = Inr r" using calc_rsi_14_total by blast
  obtain a where a: "calc_ma ?c 20 = Inr a" using calc_ma_total [of 20] by auto
  obtain b where b: "calc_ma ?c 60 = Inr b" using calc_ma_total [of 60] by auto
  from True r a b show ?thesis
    by (simp add: indicators_body_def to_dataframe_def)
qed

text \<open>
  C6. \<open>compute_indicators\<close> is total, and whenever the body of its \<open>try\<close> raises, the
  result is the documented defaults: rsi 50.0, macd neutral, no ma20, no ma60.
\<close>

theorem compute_indicators_defaults_on_failure:
  "indicators_body ohlcv = Inl e \<Longrightarrow>
   compute_indicators ohlcv = \<lparr>rsi = Fin 50, macd = neutral, ma20 = None, ma60 = None\<rparr>"
  by (simp add: compute_indicators_def default_indicators_def)

theorem compute_indicators_defaults_on_failure_witness:
  "indicators_body [] = Inl (KeyError ''close'')
   \<and> compute_indicators [] = \<lparr>rsi = Fin 50, macd = neutral, ma20 = None, ma60 = None\<rparr>"
proof -
  have h: "indicators_body [] = Inl (KeyError ''close'')"
    by (simp add: indicators_body_def to_dataframe_def has_close_def)
  from compute_indicators_defaults_on_failure [OF h] h show ?thesis by simp
qed

subsection \<open>The RSI of a window without losses\<close>

lemma ewm_from_length: "length (ewm_from a minp num den n xs) = length xs"
  by (induction xs arbitrary: num den n) auto

lemma last_map_zip:
  "length xs = length ys \<Longrightarrow> xs \<noteq> [] \<Longrightarrow> last (map f (zip xs ys)) = f (last xs, last ys)"
proof (induction xs ys rule: list_induct2)
  case Nil
  then show ?case by simp
next
  case (Cons x xs y ys)
  then show ?case by (cases xs; cases ys) auto
qed

lemma diffs_length: "length (diffs xs) = length xs - 1"
  by (induction xs rule: diffs.induct) auto

lemma calc_rsi_undefined:
  assumes "15 \<le> length closes" and "last (avg_loss closes 14) = Fin 0"
  shows "calc_rsi closes 14 = Inr NaN"
proof -
  have len: "length (avg_gain closes 14) = length (avg_loss closes 14)"
    by (simp add: avg_gain_def avg_loss_def ewm_mean_def ewm_from_length gains_def losses_def)
  have "length (avg_gain closes 14) = length closes - 1"
    by (simp add: avg_gain_def ewm_mean_def ewm_from_length gains_def diffs_length)
  with assms(1) have ne: "avg_gain closes 14 \<noteq> []" by auto
  define rs where
    "rs = map (\<lambda>(g, l). pf_div g (replace_zero l)) (zip (avg_gain closes 14) (avg_loss closes 14))"
  have rs_ne: "rs \<noteq> []"
    using ne len by (cases "avg_gain closes 14"; cases "avg_loss closes 14") (auto simp: rs_def)
  have "last rs = pf_div (last (avg_gain closes 14)) (replace_zero (last (avg_loss closes 14)))"
    unfolding rs_def by (subst last_map_zip [OF len ne]) simp
  then have rs_last: "last rs = NaN" using assms(2) by simp
  have "calc_rsi closes 14 =
      Inr (last (map (\<lambda>r. pf_sub (Fin 100) (pf_div (Fin 100) (pf_add (Fin 1) r))) rs))"
    using assms(1) rs_ne by (simp add: calc_rsi_def Let_def rs_def)
  also have "last (map (\<lambda>r. pf_sub (Fin 100) (pf_div (Fin 100) (pf_add (Fin 1) r))) rs) = NaN"
    using rs_ne rs_last by (simp add: last_map pf_sub_def)
  finally show ?thesis .
qed

text \<open>A series that never falls has an average loss of exactly 0.\<close>

lemma ewm_from_zeros_last:
  assumes "0 \<le> a" and "a \<le> 1" and "0 \<le> den" and "xs \<noteq> []"
    and "\<forall>x\<in>set xs. x = 0" and "minp \<le> n + length xs"
  shows "last (ewm_from a minp 0 den n xs) = Fin 0"
  using assms(3-)
proof (induction xs arbitrary: den n)
  case Nil
  then show ?case by simp
next
  case (Cons x xs)
  have x: "x = 0" using Cons.prems(3) by simp
  have d: "0 \<le> 1 + (1 - a) * den" using assms(1,2) Cons.prems(1) by (simp add: add_nonneg_nonneg)
  have "0 \<le> (1 - a) * den" using assms(2) Cons.prems(1) by simp
  then have d1: "1 + (1 - a) * den \<noteq> 0" by linarith
  show ?case
  proof (cases "xs = []")
    case True
    with Cons.prems(4) have "\<not> Suc n < minp" by simp
    with True x d1 show ?thesis by simp
  next
    case False
    then have ne: "ewm_from a minp 0 (1 + (1 - a) * den) (Suc n) xs \<noteq> []" by (cases xs) auto
    have "last (ewm_from a minp 0 (1 + (1 - a) * den) (Suc n) xs) = Fin 0"
      using Cons.IH [OF d False] Cons.prems(3,4) by simp
    with ne x show ?thesis by simp
  qed
qed

lemma diffs_sorted: "sorted xs \<Longrightarrow> d \<in> set (diffs xs) \<Longrightarrow> 0 \<le> d"
  by (induction xs rule: diffs.induct) auto

lemma avg_loss_no_losses:
  assumes "sorted closes" and "15 \<le> length closes"
  shows "last (avg_loss closes 14) = Fin 0"
proof -
  have z: "\<forall>x\<in>set (losses closes). x = 0"
    using diffs_sorted [OF assms(1)] by (auto simp: losses_def max_def)
  have ne: "losses closes \<noteq> []"
    using assms(2) diffs_length [of closes] by (auto simp: losses_def)
  have "14 \<le> 0 + length (losses closes)"
    using assms(2) by (simp add: losses_def diffs_length)
  from ewm_from_zeros_last [OF _ _ _ ne z this, of "1 / 14" 0]
  show ?thesis by (simp add: avg_loss_def ewm_mean_def)
qed

lemma numeric_rows_usable:
  "map snd (numeric_rows (map (\<lambda>(d, c). \<lparr>date = Val d, close = Val c\<rparr>) zs)) = map snd zs"
  by (induction zs) auto

lemma to_dataframe_bars_of:
  assumes "cs \<noteq> []" and "length cs \<le> 15"
  shows "to_dataframe (bars_of cs) = Inr cs"
proof -
  have len: "length trading_days = 15" by (simp add: trading_days_def)
  have "map snd (zip trading_days cs) = cs"
    using assms(2) len by (simp add: map_snd_zip_take)
  then have n: "map snd (numeric_rows (bars_of cs)) = cs"
    by (simp add: bars_of_def numeric_rows_usable)
  have "bars_of cs \<noteq> []"
    using assms(1) len by (cases cs; cases trading_days) (auto simp: bars_of_def)
  then have "has_close (bars_of cs)"
    by (cases "zip trading_days cs") (auto simp: has_close_def bars_of_def)
  with n show ?thesis by (simp add: to_dataframe_def)
qed

text \<open>
  Whenever the final average loss is exactly 0 on a series of at least 15 usable closes,
  the zero is replaced by NaN before the division, the NaN reaches the result, nothing
  raises, and so the \<open>except\<close> branch with its default 50.0 is not taken.
\<close>

lemma no_losses_rsi_is_nan:
  assumes "to_dataframe ohlcv = Inr closes"
    and "15 \<le> length closes"
    and "last (avg_loss closes 14) = Fin 0"
  shows "(\<exists>r. indicators_body ohlcv = Inr r) \<and> rsi (compute_indicators ohlcv) = NaN"
proof -
  have r: "calc_rsi closes 14 = Inr NaN" using calc_rsi_undefined [OF assms(2,3)] .
  obtain a where a: "calc_ma closes 20 = Inr a" using calc_ma_total [of 20] by auto
  obtain b where b: "calc_ma closes 60 = Inr b" using calc_ma_total [of 60] by auto
  have "indicators_body ohlcv =
      Inr \<lparr>rsi = NaN, macd = calc_macd_signal closes,
           ma20 = map_option round2_pf a, ma60 = map_option round2_pf b\<rparr>"
    using assms(1) r a b by (simp add: indicators_body_def)
  then show ?thesis by (simp add: compute_indicators_def)
qed

text \<open>
  C3 on fifteen strictly rising closes 1, 2, ..., 15. The average loss is exactly 0,
  \<open>compute_indicators\<close> does not raise, and the rsi it returns is NaN: neither the
  documented default 50.0, which every other degenerate path of \<open>_calc_rsi\<close> and the
  \<open>except\<close> branch return, nor a value of the documented range 0 to 100.
\<close>

theorem rising_closes_rsi_is_nan:
  "to_dataframe (bars_of rising_closes) = Inr rising_closes
   \<and> last (avg_loss rising_closes 14) = Fin 0
   \<and> indicators_body (bars_of rising_closes) =
       Inr \<lparr>rsi = NaN, macd = neutral, ma20 = None, ma60 = None\<rparr>
   \<and> compute_indicators (bars_of rising_closes) =
       \<lparr>rsi = NaN, macd = neutral, ma20 = None, ma60 = None\<rparr>
   \<and> rsi (compute_indicators (bars_of rising_closes)) \<noteq> Fin 50"
proof -
  have h1: "to_dataframe (bars_of rising_closes) = Inr rising_closes"
    by (rule to_dataframe_bars_of) (simp_all add: rising_closes_def)
  have h2: "15 \<le> length rising_closes" by (simp add: rising_closes_def)
  have h3: "last (avg_loss rising_closes 14) = Fin 0"
    by (rule avg_loss_no_losses [OF _ h2]) (simp add: rising_closes_def)
  have len: "length rising_closes = 15" by (simp add: rising_closes_def)
  have body: "indicators_body (bars_of rising_closes) =
       Inr \<lparr>rsi = NaN, macd = neutral, ma20 = None, ma60 = None\<rparr>"
    using calc_rsi_undefined [OF h2 h3]
    by (simp add: indicators_body_def h1 calc_ma_def calc_macd_signal_def len)
  show ?thesis using h1 h3 body by (simp add: compute_indicators_def)
qed

section \<open>Properties of the backtester\<close>

subsection \<open>The sample runs\<close>

lemmas frame_defs = bars_of_def trading_days_def build_df_def has_date_def has_close_def
  rolling_mean_def

lemmas loop_defs = init_sim_def step_def transition_def record_bar_def Let_def round2_def
  round_half_even_def

lemma jump_build: "build_df jump_history 5 10 = Inr jump_df"
  by (simp add: jump_history_def jump_df_def frame_defs)


lemma jump_length: "length jump_history = 15"
  by (simp add: jump_history_def bars_of_def trading_days_def)




subsection \<open>The first bar\<close>


subsection \<open>The entry bar\<close>

text \<open>
  C1 on the sample history (ten bars at 50, five at 100; capital 100000, windows 5 and 10).
  After the entry bar the cash is still 100000, the 1000 shares are worth 100000, and the
  recorded equity is 200000; the run reports a total return of 100 per cent on a position
  that was bought and liquidated at the same price.
\<close>

theorem entry_bar_counts_cash_twice:
  "build_df jump_history 5 10 = Inr jump_df
   \<and> walk (3 / 20) (2 / 25) (init_sim 100000 (hd jump_df)) (take 2 jump_df) =
       Inr \<lparr>equity = 100000, position = 1000, entry_price = 100, trade_results = [],
            equity_curve = [(''2024-01-15'', 100000), (''2024-01-16'', 200000)],
            prev_short = 60, prev_long = 55\<rparr>
   \<and> run_backtest (\<lambda>symb days. jump_history) ''2330.TW'' 100000 5 10 (3 / 20) (2 / 25) 365 =
       Inr \<lparr>strategy = (5, 10),
            result_metrics =
              \<lparr>total_return_pct = 100, max_drawdown_pct = Fin 0, num_trades = 1,
               win_rate_pct = 0\<rparr>,
            result_equity_curve =
              [(''2024-01-15'', 100000), (''2024-01-16'', 200000),
               (''2024-01-17'', 200000), (''2024-01-18'', 200000),
               (''2024-01-19'', 200000), (''2024-01-22'', 200000)]\<rparr>"
proof -
  have two: "walk (3 / 20) (2 / 25) (init_sim 100000 (hd jump_df)) (take 2 jump_df) =
       Inr \<lparr>equity = 100000, position = 1000, entry_price = 100, trade_results = [],
            equity_curve = [(''2024-01-15'', 100000), (''2024-01-16'', 200000)],
            prev_short = 60, prev_long = 55\<rparr>"
    by (simp add: jump_df_def loop_defs)
  have sim: "simulate 100000 (3 / 20) (2 / 25) jump_df =
      Inr (jump_state\<lparr>equity := 100000, trade_results := [0]\<rparr>)"
    by (simp add: simulate_def liquidate_def jump_df_def jump_state_def loop_defs)
  have "backtest_history jump_history 100000 5 10 (3 / 20) (2 / 25) =
       Inr \<lparr>strategy = (5, 10),
            result_metrics =
              \<lparr>total_return_pct = 100, max_drawdown_pct = Fin 0, num_trades = 1,
               win_rate_pct = 0\<rparr>,
            result_equity_curve =
              [(''2024-01-15'', 100000), (''2024-01-16'', 200000),
               (''2024-01-17'', 200000), (''2024-01-18'', 200000),
               (''2024-01-19'', 200000), (''2024-01-22'', 200000)]\<rparr>"
    by (simp add: backtest_history_def jump_length jump_build sim jump_state_def
        compute_metrics_def final_equity_def max_drawdown_def drawdown_def cummax_def pf_sub_def
        win_rate_def round2_def round_half_even_def)
  with jump_build two show ?thesis by (simp add: run_backtest_def)
qed

subsection \<open>The failure modes\<close>

text \<open>What the loop can raise, and what the walk over the frame can raise.\<close>

lemma step_raises: "step tp sl s r = Inl e \<Longrightarrow> e = ZeroDivisionError"
  by (auto simp: step_def transition_def Let_def split: sum.splits if_splits)

lemma walk_raises: "walk tp sl s rs = Inl e \<Longrightarrow> e = ZeroDivisionError"
  by (induction rs arbitrary: s) (auto split: sum.splits dest: step_raises)

lemma simulate_raises:
  assumes "simulate cap tp sl df = Inl e"
  shows "e = IndexError \<or> e = ZeroDivisionError"
proof (cases df)
  case Nil
  with assms show ?thesis by (simp add: simulate_def)
next
  case (Cons first rest)
  with assms have "walk tp sl (init_sim cap first) df = Inl e"
    by (simp only: simulate_def list.case split: sum.splits) simp
  then show ?thesis by (simp add: walk_raises)
qed

text \<open>The length test of line 52 is the only source of the not-enough-data error.\<close>

lemma not_enough_data_iff:
  "(\<exists>need got. backtest_history ohlcv cap ms ml tp sl = Inl (ValueError (NotEnoughData need got)))
   \<longleftrightarrow> int (length ohlcv) < ml + 5"
proof (cases "int (length ohlcv) < ml + 5")
  case True
  then show ?thesis by (simp add: backtest_history_def)
next
  case False
  have "backtest_history ohlcv cap ms ml tp sl \<noteq> Inl (ValueError (NotEnoughData need got))"
    for need got
  proof (cases "build_df ohlcv ms ml")
    case (Inl e)
    then have "e = KeyError ''date, close'' \<or> e = ValueError BadWindow"
      by (auto simp: build_df_def Let_def split: if_splits)
    with Inl False show ?thesis by (auto simp: backtest_history_def)
  next
    case (Inr df)
    show ?thesis
    proof (cases "simulate cap tp sl df")
      case (Inl e)
      with simulate_raises [OF Inl] Inr False show ?thesis
        by (auto simp: backtest_history_def)
    next
      case sim: (Inr s)
      with Inr False show ?thesis
        by (auto simp: backtest_history_def compute_metrics_def Let_def)
    qed
  qed
  with False show ?thesis by blast
qed

text \<open>
  C4 on the sample history of fifteen bars, six of them with a null close, for windows 5
  and 10: the length test passes (15 is not below 10 + 5), the nine remaining closes leave
  no row with a long average, and \<open>iloc[0]\<close> raises \<open>IndexError\<close>.
\<close>

theorem null_closes_raise_index_error:
  "int (length gappy_history) = 10 + 5
   \<and> build_df gappy_history 5 10 = Inr []
   \<and> run_backtest (\<lambda>symb days. gappy_history) ''2330.TW'' 100000 5 10 (3 / 20) (2 / 25) 365 =
       Inl IndexError"
  by (simp add: run_backtest_def backtest_history_def gappy_history_def trading_days_def
      build_df_def has_date_def has_close_def rolling_mean_def simulate_def)

subsection \<open>The forced liquidation\<close>







subsection \<open>Equity conservation\<close>

text \<open>
  C2 on the sample history (ten bars at 50, five at 100; capital 100000, windows 5 and 10).
  The loop ends with 1000 shares open, bought at 100; the liquidation at the last close,
  100, appends the only trade, with pnl 0. The initial capital plus the shares-weighted
  sum of the pnls is 100000. The final equity, read from the last curve point, is 200000:
  that point was recorded as position value plus the cash the entry never reset.
\<close>

theorem long_end_breaks_conservation:
  "build_df jump_history 5 10 = Inr jump_df
   \<and> simulate 100000 (3 / 20) (2 / 25) jump_df = Inr (liquidate jump_state jump_df)
   \<and> realized_shares (3 / 20) (2 / 25) (init_sim 100000 (hd jump_df)) jump_df jump_state = [1000]
   \<and> trade_results (liquidate jump_state jump_df) = [0]
   \<and> equity (liquidate jump_state jump_df) = 100000
   \<and> 100000 + weighted_pnl [1000] [0] = 100000
   \<and> final_equity 100000 (equity_curve (liquidate jump_state jump_df)) = 200000
   \<and> final_equity 100000 (equity_curve (liquidate jump_state jump_df)) \<noteq>
       100000 + weighted_pnl
         (realized_shares (3 / 20) (2 / 25) (init_sim 100000 (hd jump_df)) jump_df jump_state)
         (trade_results (liquidate jump_state jump_df))"
proof -
  have j1: "simulate 100000 (3 / 20) (2 / 25) jump_df = Inr (liquidate jump_state jump_df)"
    by (simp add: simulate_def liquidate_def jump_df_def jump_state_def loop_defs)
  have j2: "realized_shares (3 / 20) (2 / 25) (init_sim 100000 (hd jump_df)) jump_df jump_state
      = [1000]"
    by (simp add: realized_shares_def jump_df_def jump_state_def loop_defs)
  have j3: "trade_results (liquidate jump_state jump_df) = [0]
      \<and> equity (liquidate jump_state jump_df) = 100000
      \<and> final_equity 100000 (equity_curve (liquidate jump_state jump_df)) = 200000"
    by (simp add: liquidate_def jump_state_def jump_df_def final_equity_def)
  show ?thesis using jump_build j1 j2 j3 by (simp add: weighted_pnl_def)
qed

section \<open>Properties of the metrics\<close>





text \<open>\<open>cummax\<close> is the running maximum.\<close>

lemma cummax_from_nth:
  "i < length xs \<Longrightarrow> cummax_from m xs ! i = Max (insert m (set (take (Suc i) xs)))"
proof (induction xs arbitrary: m i)
  case Nil
  then show ?case by simp
next
  case (Cons y ys)
  show ?case
  proof (cases i)
    case 0
    then show ?thesis by (simp add: max.commute)
  next
    case (Suc j)
    with Cons.prems have j: "j < length ys" by simp
    have ne: "set (take (Suc j) ys) \<noteq> {}" using j by (cases ys) auto
    have "Max (insert (max m y) (set (take (Suc j) ys))) =
          Max (insert m (insert y (set (take (Suc j) ys))))"
      using ne by (simp add: max.assoc)
    with Cons.IH [OF j, of "max m y"] Suc show ?thesis by simp
  qed
qed

lemma cummax_nth:
  assumes "i < length xs"
  shows "cummax xs ! i = Max (set (take (Suc i) xs))"
proof (cases xs)
  case Nil
  with assms show ?thesis by simp
next
  case (Cons y ys)
  show ?thesis
  proof (cases i)
    case 0
    with Cons show ?thesis by (simp add: cummax_def)
  next
    case (Suc j)
    with assms Cons have "j < length ys" by simp
    from cummax_from_nth [OF this, of y] Cons Suc show ?thesis
      by (simp add: cummax_def)
  qed
qed








lemmas metric_defs = compute_metrics_def final_equity_def max_drawdown_def drawdown_def
  cummax_def pf_sub_def win_rate_def round2_def round_half_even_def Let_def



section \<open>Properties of the endpoint\<close>

text \<open>
  C5. A request with \<open>ma_short \<ge> ma_long\<close> is answered with the 422 error whatever the
  market-data gateway would return: the rejection precedes the fetch, the moving averages
  and the walk over the bars.
\<close>

theorem reject_short_ge_long:
  "ma_long body \<le> ma_short body \<Longrightarrow>
   api_run_backtest fetch body =
     Inl (HTTPException 422 (Text ''ma_short must be strictly less than ma_long.''))"
  by (simp add: api_run_backtest_def)

theorem reject_short_ge_long_witness:
  "api_run_backtest (\<lambda>symb days. jump_history)
     \<lparr>symbol = ''2330.TW'', initial_capital = 100000, ma_short = 60, ma_long = 20,
      take_profit_pct = 3 / 20, stop_loss_pct = 2 / 25, lookback_days = 365\<rparr>
   = Inl (HTTPException 422 (Text ''ma_short must be strictly less than ma_long.''))"
  using reject_short_ge_long
    [of "\<lparr>symbol = ''2330.TW'', initial_capital = 100000, ma_short = 60, ma_long = 20,
          take_profit_pct = 3 / 20, stop_loss_pct = 2 / 25, lookback_days = 365\<rparr>"
        "\<lambda>symb days. jump_history"]
  by simp

text \<open>
  The guard is the endpoint's: called directly with a short window of 10 and a long window
  of 5, the service function runs the simulation.
\<close>

lemma service_has_no_window_guard:
  "run_backtest (\<lambda>symb days. jump_history) ''2330.TW'' 100000 10 5 (3 / 20) (2 / 25) 365 =
     Inr \<lparr>strategy = (10, 5),
          result_metrics =
            \<lparr>total_return_pct = 0, max_drawdown_pct = Fin 0, num_trades = 0,
             win_rate_pct = 0\<rparr>,
          result_equity_curve =
            [(''2024-01-15'', 100000), (''2024-01-16'', 100000), (''2024-01-17'', 100000),
             (''2024-01-18'', 100000), (''2024-01-19'', 100000),
             (''2024-01-22'', 100000)]\<rparr>"
  by (simp add: run_backtest_def backtest_history_def jump_length jump_history_def frame_defs
      simulate_def liquidate_def init_sim_def step_def transition_def record_bar_def
      metric_defs)

end
